theory Spec2Isabelle
  imports Complex_Main
begin

section \<open>Pose tracking (moveit\_servo, pose\_tracking.cpp)\<close>

text \<open>
  A shallow embedding of \<^verbatim>\<open>moveit_servo::PoseTracking\<close>. C++ \<^verbatim>\<open>double\<close>,
  \<^verbatim>\<open>ros::Time\<close> and \<^verbatim>\<open>ros::Duration\<close> (in seconds) are read as real numbers,
  so rounding is outside the model. Member names lose their trailing underscore.
\<close>

subsection \<open>Vectors, quaternions, angle-axis\<close>

text \<open>
  One record of three doubles stands for \<^verbatim>\<open>Eigen::Vector3d\<close> (indices 0, 1, 2),
  \<^verbatim>\<open>geometry_msgs::Point\<close> and \<^verbatim>\<open>geometry_msgs::Vector3\<close> (members x, y, z).
\<close>

record vector3 =
  vx :: real
  vy :: real
  vz :: real

record quaternion =
  qw :: real
  qx :: real
  qy :: real
  qz :: real

text \<open>
  Modelled from the spec: the quaternion product, inverse and angle-axis conversion are
  Eigen's (\<^verbatim>\<open>Eigen::Quaterniond\<close>, \<^verbatim>\<open>Eigen::AngleAxisd\<close>), a library that is not
  part of the source file. The spec calls them the relative orientation quaternion
  \<open>target \<times> inverse(current)\<close>, its rotation angle in \<open>[0, \<pi>]\<close> and its rotation
  axis, which is arbitrary when the angle is zero. The definitions below are the usual ones
  over the reals: the Hamilton product, conjugate over squared norm, and the angle
  \<open>2 atan2(|v|, |w|)\<close> with the axis \<open>v / |v|\<close> turned so that the angle is at most \<open>\<pi>\<close>.
\<close>

definition q_mult :: "quaternion \<Rightarrow> quaternion \<Rightarrow> quaternion" where
  "q_mult a b =
     \<lparr> qw = qw a * qw b - qx a * qx b - qy a * qy b - qz a * qz b,
       qx = qw a * qx b + qx a * qw b + qy a * qz b - qz a * qy b,
       qy = qw a * qy b + qy a * qw b + qz a * qx b - qx a * qz b,
       qz = qw a * qz b + qz a * qw b + qx a * qy b - qy a * qx b \<rparr>"

definition squaredNorm :: "quaternion \<Rightarrow> real" where
  "squaredNorm q = qw q * qw q + qx q * qx q + qy q * qy q + qz q * qz q"

definition q_inverse :: "quaternion \<Rightarrow> quaternion" where
  "q_inverse q =
     (let n2 = squaredNorm q
      in if 0 < n2
         then \<lparr> qw = qw q / n2, qx = - qx q / n2, qy = - qy q / n2, qz = - qz q / n2 \<rparr>
         else \<lparr> qw = 0, qx = 0, qy = 0, qz = 0 \<rparr>)"

definition atan2 :: "real \<Rightarrow> real \<Rightarrow> real" where
  "atan2 b a =
     (if 0 < a then arctan (b / a)
      else if a < 0 then (if 0 \<le> b then arctan (b / a) + pi else arctan (b / a) - pi)
      else if 0 < b then pi / 2
      else if b < 0 then - (pi / 2)
      else 0)"

record angle_axis =
  angle :: real
  axis :: vector3

definition AngleAxisd :: "quaternion \<Rightarrow> angle_axis" where
  "AngleAxisd q =
     (let n = sqrt (qx q * qx q + qy q * qy q + qz q * qz q)
      in if n \<noteq> 0
         then (let m = (if qw q < 0 then - n else n)
               in \<lparr> angle = 2 * atan2 n \<bar>qw q\<bar>,
                    axis = \<lparr> vx = qx q / m, vy = qy q / m, vz = qz q / m \<rparr> \<rparr>)
         else \<lparr> angle = 0, axis = \<lparr> vx = 1, vy = 0, vz = 0 \<rparr> \<rparr>)"

subsection \<open>Messages and transforms\<close>

record header =
  stamp :: real
  frame_id :: string

record pose =
  position :: vector3
  orientation :: quaternion

record pose_stamped =
  header :: header
  pose :: pose

record twist =
  linear_part :: vector3
  angular_part :: vector3

record twist_stamped =
  twist_header :: header
  twist :: twist

text \<open>
  \<^verbatim>\<open>Eigen::Isometry3d\<close>: the source reads \<^verbatim>\<open>translation()\<close> by index and turns
  \<^verbatim>\<open>rotation()\<close> into a quaternion at once, so the rotation is kept as that quaternion.
\<close>

record isometry =
  translation :: vector3
  rotation :: quaternion

subsection \<open>The PID controller\<close>

text \<open>
  Modelled from the spec: \<^verbatim>\<open>control_toolbox::Pid\<close> is a library class that is not part
  of the source file. The spec (section 4.2) gives it gains, an integral accumulator, a
  symmetric windup clamp, an anti-windup flag and the previous error;
  \<open>compute(error, dt)\<close> adds \<open>error * dt\<close> to the accumulator, clamps it when
  anti-windup is on, returns \<open>k_p*error + k_i*integral + k_d*(error - previous_error)/dt\<close>
  and remembers the error; \<open>reset()\<close> zeroes accumulator and previous error and nothing
  else. The constructor takes the two clamp bounds as separate arguments, as the source
  passes them (\<open>- windup_limit\<close> and \<open>windup_limit\<close>); the clamp lies between the
  smaller and the larger of the two.
\<close>

record pid =
  p_gain :: real
  i_gain :: real
  d_gain :: real
  i_max :: real
  i_min :: real
  antiwindup :: bool
  i_error :: real
  p_error_last :: real

definition Pid :: "real \<Rightarrow> real \<Rightarrow> real \<Rightarrow> real \<Rightarrow> real \<Rightarrow> bool \<Rightarrow> pid" where
  "Pid p i d imax imin aw =
     \<lparr> p_gain = p, i_gain = i, d_gain = d, i_max = imax, i_min = imin, antiwindup = aw,
       i_error = 0, p_error_last = 0 \<rparr>"

definition reset :: "pid \<Rightarrow> pid" where
  "reset c = c\<lparr> i_error := 0, p_error_last := 0 \<rparr>"

definition clamp :: "real \<Rightarrow> real \<Rightarrow> real \<Rightarrow> real" where
  "clamp v lo hi = (if v < lo then lo else if hi < v then hi else v)"

definition computeCommand :: "pid \<Rightarrow> real \<Rightarrow> real \<Rightarrow> real \<times> pid" where
  "computeCommand c err period =
     (let acc = i_error c + err * period;
          acc' = (if antiwindup c
                  then clamp acc (min (i_min c) (i_max c)) (max (i_min c) (i_max c))
                  else acc);
          cmd = p_gain c * err + i_gain c * acc' + d_gain c * ((err - p_error_last c) / period)
      in (cmd, c\<lparr> i_error := acc', p_error_last := err \<rparr>))"

record PIDConfig =
  dt :: real
  k_p :: real
  k_i :: real
  k_d :: real
  windup_limit :: real

text \<open>\<^verbatim>\<open>initializePID\<close> (lines 210-215): \<^verbatim>\<open>push_back\<close> of a new controller.\<close>

definition initializePID :: "PIDConfig \<Rightarrow> pid list \<Rightarrow> pid list" where
  "initializePID pid_config pid_vector =
     pid_vector @ [Pid (k_p pid_config) (k_i pid_config) (k_d pid_config)
                       (- windup_limit pid_config) (windup_limit pid_config) True]"

subsection \<open>The tracker object\<close>

text \<open>
  What the tracker does to the outside, oldest first: \<^verbatim>\<open>ros::Duration(d).sleep()\<close> and
  \<^verbatim>\<open>twist_stamped_pub_.publish(msg)\<close>.
\<close>

datatype effect = Slept real | Published twist_stamped

record pose_tracking =
  loop_rate :: real
  planning_frame :: string
  target_pose :: pose_stamped
  end_effector_transform :: isometry
  end_effector_transform_stamp :: real
  stop_requested :: bool
  angular_error :: real
  cartesian_position_pids :: "pid list"
  cartesian_orientation_pids :: "pid list"
  effects :: "effect list"

definition DEFAULT_POSE_TIMEOUT :: real where
  "DEFAULT_POSE_TIMEOUT = 0.1"

text \<open>
  \<^verbatim>\<open>loop_rate_\<close> is a \<^verbatim>\<open>ros::Rate\<close>, kept as its frequency in Hz;
  \<^verbatim>\<open>expectedCycleTime()\<close> is one over the frequency.
\<close>

definition expectedCycleTime :: "real \<Rightarrow> real" where
  "expectedCycleTime rate = 1 / rate"

text \<open>
  Lines 217-225. \<^verbatim>\<open>ros::Time::now()\<close> is the first argument of every function that
  reads the clock.
\<close>

definition haveRecentTargetPose :: "real \<Rightarrow> real \<Rightarrow> pose_tracking \<Rightarrow> bool" where
  "haveRecentTargetPose now timespan s \<longleftrightarrow> now - stamp (header (target_pose s)) < timespan"

definition haveRecentEndEffectorPose :: "real \<Rightarrow> real \<Rightarrow> pose_tracking \<Rightarrow> bool" where
  "haveRecentEndEffectorPose now timespan s \<longleftrightarrow> now - end_effector_transform_stamp s < timespan"

text \<open>Lines 227-237.\<close>

definition satisfiesPoseTolerance :: "vector3 \<Rightarrow> real \<Rightarrow> pose_tracking \<Rightarrow> bool" where
  "satisfiesPoseTolerance positional_tolerance angular_tolerance s =
     (let x_error = vx (position (pose (target_pose s))) - vx (translation (end_effector_transform s));
          y_error = vy (position (pose (target_pose s))) - vy (translation (end_effector_transform s));
          z_error = vz (position (pose (target_pose s))) - vz (translation (end_effector_transform s))
      in \<bar>x_error\<bar> < vx positional_tolerance \<and> \<bar>y_error\<bar> < vy positional_tolerance \<and>
         (\<bar>z_error\<bar> < vz positional_tolerance \<and> \<bar>angular_error s\<bar> < angular_tolerance))"

text \<open>
  Lines 239-250. A message arrives together with what tf2 makes of it:
  \<open>in_planning_frame\<close> is the message after \<^verbatim>\<open>lookupTransform\<close> and
  \<^verbatim>\<open>doTransform\<close>, or \<open>None\<close> when \<^verbatim>\<open>lookupTransform\<close> throws its
  \<^verbatim>\<open>tf2::TransformException\<close>. The callback has no handler, so the exception leaves
  it at the lookup, before \<^verbatim>\<open>target_pose_\<close> is assigned at lines 248-249. What
  leaves is the exception together with the tracker as it is at the throw.
\<close>

datatype exception = TransformException

record arrival =
  msg :: pose_stamped
  in_planning_frame :: "pose_stamped option"

definition set_stamp :: "real \<Rightarrow> pose_stamped \<Rightarrow> pose_stamped" where
  "set_stamp t m = m\<lparr> header := (header m)\<lparr> stamp := t \<rparr> \<rparr>"

definition targetPoseCallback ::
  "real \<Rightarrow> arrival \<Rightarrow> pose_tracking \<Rightarrow> exception \<times> pose_tracking + pose_tracking" where
  "targetPoseCallback now a s =
     (if frame_id (header (msg a)) \<noteq> planning_frame s
      then (case in_planning_frame a of
              None \<Rightarrow> Inl (TransformException, s)
            | Some m \<Rightarrow> Inr (s\<lparr> target_pose := set_stamp now m \<rparr>))
      else Inr (s\<lparr> target_pose := set_stamp now (msg a) \<rparr>))"

text \<open>Lines 252-291. The message is returned next to the updated tracker.\<close>

definition calculateTwistCommand :: "real \<Rightarrow> pose_tracking \<Rightarrow> twist_stamped \<times> pose_tracking" where
  "calculateTwistCommand now s =
     (let period = expectedCycleTime (loop_rate s);
          target = position (pose (target_pose s));
          current = translation (end_effector_transform s);
          (linear_x, c0) = computeCommand (cartesian_position_pids s ! 0) (vx target - vx current) period;
          pids0 = (cartesian_position_pids s)[0 := c0];
          (linear_y, c1) = computeCommand (pids0 ! 1) (vy target - vy current) period;
          pids1 = pids0[1 := c1];
          (linear_z, c2) = computeCommand (pids1 ! 2) (vz target - vz current) period;
          pids2 = pids1[2 := c2];
          q_desired = orientation (pose (target_pose s));
          q_current = rotation (end_effector_transform s);
          q_error = q_mult q_desired (q_inverse q_current);
          axis_angle = AngleAxisd q_error;
          (ang_vel_magnitude, c3) =
             computeCommand (cartesian_orientation_pids s ! 0) (angle axis_angle) period
      in (\<lparr> twist_header = \<lparr> stamp = now, frame_id = frame_id (header (target_pose s)) \<rparr>,
            twist = \<lparr> linear_part = \<lparr> vx = linear_x, vy = linear_y, vz = linear_z \<rparr>,
                      angular_part = \<lparr> vx = ang_vel_magnitude * vx (axis axis_angle),
                                       vy = ang_vel_magnitude * vy (axis axis_angle),
                                       vz = ang_vel_magnitude * vz (axis axis_angle) \<rparr> \<rparr> \<rparr>,
          s\<lparr> angular_error := angle axis_angle,
             cartesian_position_pids := pids2,
             cartesian_orientation_pids := (cartesian_orientation_pids s)[0 := c3] \<rparr>))"

text \<open>Lines 293-303.\<close>

definition reset_at :: "nat \<Rightarrow> pid list \<Rightarrow> pid list" where
  "reset_at i pids = pids[i := reset (pids ! i)]"

definition doPostMotionReset :: "pose_tracking \<Rightarrow> pose_tracking" where
  "doPostMotionReset s =
     s\<lparr> stop_requested := False,
        angular_error := 0,
        cartesian_position_pids := reset_at 2 (reset_at 1 (reset_at 0 (cartesian_position_pids s))),
        cartesian_orientation_pids := reset_at 0 (cartesian_orientation_pids s) \<rparr>"

text \<open>
  The constructor, lines 47-79, with the values \<^verbatim>\<open>readROSParams\<close> (lines 146-208) takes
  from the parameter server as a record. \<^verbatim>\<open>Eigen::Isometry3d\<close> has no default value, so
  the first \<^verbatim>\<open>end_effector_transform_\<close> is an argument; the default
  \<^verbatim>\<open>geometry_msgs::PoseStamped\<close> and \<^verbatim>\<open>ros::Time\<close> are all zeros.
\<close>

record ros_params =
  param_planning_frame :: string
  publish_period :: real
  param_windup_limit :: real
  x_proportional_gain :: real
  y_proportional_gain :: real
  z_proportional_gain :: real
  x_integral_gain :: real
  y_integral_gain :: real
  z_integral_gain :: real
  x_derivative_gain :: real
  y_derivative_gain :: real
  z_derivative_gain :: real
  angular_proportional_gain :: real
  angular_integral_gain :: real
  angular_derivative_gain :: real

definition x_pid_config :: "ros_params \<Rightarrow> PIDConfig" where
  "x_pid_config prm =
     \<lparr> dt = publish_period prm, k_p = x_proportional_gain prm, k_i = x_integral_gain prm,
       k_d = x_derivative_gain prm, windup_limit = param_windup_limit prm \<rparr>"

definition y_pid_config :: "ros_params \<Rightarrow> PIDConfig" where
  "y_pid_config prm =
     \<lparr> dt = publish_period prm, k_p = y_proportional_gain prm, k_i = y_integral_gain prm,
       k_d = y_derivative_gain prm, windup_limit = param_windup_limit prm \<rparr>"

definition z_pid_config :: "ros_params \<Rightarrow> PIDConfig" where
  "z_pid_config prm =
     \<lparr> dt = publish_period prm, k_p = z_proportional_gain prm, k_i = z_integral_gain prm,
       k_d = z_derivative_gain prm, windup_limit = param_windup_limit prm \<rparr>"

definition angular_pid_config :: "ros_params \<Rightarrow> PIDConfig" where
  "angular_pid_config prm =
     \<lparr> dt = publish_period prm, k_p = angular_proportional_gain prm,
       k_i = angular_integral_gain prm, k_d = angular_derivative_gain prm,
       windup_limit = param_windup_limit prm \<rparr>"

definition zero_pose_stamped :: pose_stamped where
  "zero_pose_stamped =
     \<lparr> header = \<lparr> stamp = 0, frame_id = [] \<rparr>,
       pose = \<lparr> position = \<lparr> vx = 0, vy = 0, vz = 0 \<rparr>,
                orientation = \<lparr> qw = 0, qx = 0, qy = 0, qz = 0 \<rparr> \<rparr> \<rparr>"

definition PoseTracking :: "ros_params \<Rightarrow> isometry \<Rightarrow> pose_tracking" where
  "PoseTracking prm transform0 =
     \<lparr> loop_rate = 1 / publish_period prm,
       planning_frame = param_planning_frame prm,
       target_pose = zero_pose_stamped,
       end_effector_transform = transform0,
       end_effector_transform_stamp = 0,
       stop_requested = False,
       angular_error = 0,
       cartesian_position_pids =
         initializePID (z_pid_config prm) (initializePID (y_pid_config prm)
           (initializePID (x_pid_config prm) [])),
       cartesian_orientation_pids = initializePID (angular_pid_config prm) [],
       effects = [] \<rparr>"

subsection \<open>The rest of the system\<close>

text \<open>
  \<^verbatim>\<open>moveToPose\<close> runs next to the subscriber thread, the Servo object, the clock and
  whoever asks for a stop. An \<open>event\<close> is what they did since the tracker last looked:
  the clock reading from then on, the target messages handed to
  \<^verbatim>\<open>targetPoseCallback\<close>, whether \<^verbatim>\<open>stopMotion()\<close> was called, what
  \<^verbatim>\<open>getCommandFrameTransform\<close> has to offer and what \<^verbatim>\<open>ros::ok()\<close> answers. The
  tracker looks once at entry and once after every pass of either loop; within a pass the
  clock stands still. A run over a finite list of events that is used up before
  \<^verbatim>\<open>moveToPose\<close> returns is \<open>Running\<close>; an exception that leaves the callback ends
  the run as \<open>Uncaught\<close> (nothing in the file catches it), with the tracker as it is at
  the throw: what earlier callbacks of the same event assigned stays assigned.
\<close>

record event =
  clock :: real
  target_msgs :: "arrival list"
  stop_motion :: bool
  command_frame :: "isometry option"
  ros_ok :: bool

text \<open>
  Modelled from the spec: \<^verbatim>\<open>stopMotion()\<close> is declared in pose\_tracking.h, which is not
  among the sources; the spec's cancellation signal is a boolean that an external actor sets.
\<close>

definition stopMotion :: "pose_tracking \<Rightarrow> pose_tracking" where
  "stopMotion s = s\<lparr> stop_requested := True \<rparr>"

text \<open>
  Modelled from the spec: \<^verbatim>\<open>Servo::getCommandFrameTransform\<close> is defined in another file
  of moveit\_servo; the spec's transform provider returns the current end-effector pose or
  indicates unavailability. Lines 92-95 and 117-120 stamp the pose when it returns one.
\<close>

definition getCommandFrameTransform :: "event \<Rightarrow> pose_tracking \<Rightarrow> pose_tracking" where
  "getCommandFrameTransform e s =
     (case command_frame e of
        None \<Rightarrow> s
      | Some t \<Rightarrow> s\<lparr> end_effector_transform := t, end_effector_transform_stamp := clock e \<rparr>)"

definition sleep :: "real \<Rightarrow> pose_tracking \<Rightarrow> pose_tracking" where
  "sleep d s = s\<lparr> effects := effects s @ [Slept d] \<rparr>"

definition publish :: "twist_stamped \<Rightarrow> pose_tracking \<Rightarrow> pose_tracking" where
  "publish m s = s\<lparr> effects := effects s @ [Published m] \<rparr>"

fun callbacks ::
  "real \<Rightarrow> arrival list \<Rightarrow> pose_tracking \<Rightarrow> exception \<times> pose_tracking + pose_tracking" where
  "callbacks now [] s = Inr s"
| "callbacks now (a # as) s =
     (case targetPoseCallback now a s of
        Inl x \<Rightarrow> Inl x
      | Inr s' \<Rightarrow> callbacks now as s')"

definition deliver :: "event \<Rightarrow> pose_tracking \<Rightarrow> exception \<times> pose_tracking + pose_tracking" where
  "deliver e s =
     (case callbacks (clock e) (target_msgs e) s of
        Inl x \<Rightarrow> Inl x
      | Inr s' \<Rightarrow> Inr (if stop_motion e then stopMotion s' else s'))"

subsection \<open>moveToPose\<close>

datatype PoseTrackingStatusCode =
  SUCCESS | NO_RECENT_TARGET_POSE | NO_RECENT_END_EFFECTOR_POSE | STOP_REQUESTED

datatype run =
  Returned PoseTrackingStatusCode pose_tracking
| Uncaught exception pose_tracking
| Running pose_tracking

text \<open>
  The startup loop, lines 88-97. It ends with the event at which its condition failed, the
  events still to come and the tracker, or with the run's end.
\<close>

fun wait_for_poses ::
  "real \<Rightarrow> event \<Rightarrow> event list \<Rightarrow> pose_tracking \<Rightarrow> run + (event \<times> event list \<times> pose_tracking)" where
  "wait_for_poses start_time e [] s =
     (if (\<not> haveRecentTargetPose (clock e) DEFAULT_POSE_TIMEOUT s \<or>
          \<not> haveRecentEndEffectorPose (clock e) DEFAULT_POSE_TIMEOUT s) \<and>
         clock e - start_time < DEFAULT_POSE_TIMEOUT
      then Inl (Running (sleep 0.001 (getCommandFrameTransform e s)))
      else Inr (e, [], s))"
| "wait_for_poses start_time e (e' # es) s =
     (if (\<not> haveRecentTargetPose (clock e) DEFAULT_POSE_TIMEOUT s \<or>
          \<not> haveRecentEndEffectorPose (clock e) DEFAULT_POSE_TIMEOUT s) \<and>
         clock e - start_time < DEFAULT_POSE_TIMEOUT
      then (let s' = sleep 0.001 (getCommandFrameTransform e s)
            in case deliver e' s' of
                 Inl (x, t) \<Rightarrow> Inl (Uncaught x t)
               | Inr s'' \<Rightarrow> wait_for_poses start_time e' es s'')
      else Inr (e, e' # es, s))"

text \<open>
  One pass of the tracking loop, lines 111-139. \<^verbatim>\<open>break\<close> leads to lines 142-143, so
  it stops with \<open>SUCCESS\<close> after the reset.
\<close>

datatype step = Stop PoseTrackingStatusCode pose_tracking | Continue pose_tracking

definition cycle :: "vector3 \<Rightarrow> real \<Rightarrow> event \<Rightarrow> pose_tracking \<Rightarrow> step" where
  "cycle positional_tolerance angular_tolerance e s =
     (if satisfiesPoseTolerance positional_tolerance angular_tolerance s
      then Stop SUCCESS (doPostMotionReset s)
      else (let s1 = getCommandFrameTransform e s
            in if \<not> haveRecentEndEffectorPose (clock e) DEFAULT_POSE_TIMEOUT s1
               then Stop NO_RECENT_END_EFFECTOR_POSE (doPostMotionReset s1)
               else if stop_requested s1
               then Stop STOP_REQUESTED (doPostMotionReset s1)
               else (let (m, s2) = calculateTwistCommand (clock e) s1
                     in Continue (publish m s2))))"

text \<open>The tracking loop, lines 104-143.\<close>

fun track :: "vector3 \<Rightarrow> real \<Rightarrow> event \<Rightarrow> event list \<Rightarrow> pose_tracking \<Rightarrow> run" where
  "track positional_tolerance angular_tolerance e [] s =
     (if \<not> ros_ok e then Returned SUCCESS (doPostMotionReset s)
      else (case cycle positional_tolerance angular_tolerance e s of
              Stop code s' \<Rightarrow> Returned code s'
            | Continue s' \<Rightarrow> Running s'))"
| "track positional_tolerance angular_tolerance e (e' # es) s =
     (if \<not> ros_ok e then Returned SUCCESS (doPostMotionReset s)
      else (case cycle positional_tolerance angular_tolerance e s of
              Stop code s' \<Rightarrow> Returned code s'
            | Continue s' \<Rightarrow>
                (case deliver e' s' of
                   Inl (x, t) \<Rightarrow> Uncaught x t
                 | Inr s'' \<Rightarrow> track positional_tolerance angular_tolerance e' es s'')))"

text \<open>
  Lines 83-102: the roll-back of the target stamp, the startup loop and the check after it.
  It ends the run, or hands over to the tracking loop.
\<close>

definition startup :: "event \<Rightarrow> event list \<Rightarrow> pose_tracking \<Rightarrow> run + (event \<times> event list \<times> pose_tracking)" where
  "startup e es s =
     (let s0 = s\<lparr> target_pose := set_stamp (clock e - 2 * DEFAULT_POSE_TIMEOUT) (target_pose s) \<rparr>;
          start_time = clock e
      in case wait_for_poses start_time e es s0 of
           Inl r \<Rightarrow> Inl r
         | Inr (e1, es1, s1) \<Rightarrow>
             if \<not> haveRecentTargetPose (clock e1) DEFAULT_POSE_TIMEOUT s1
             then Inl (Returned NO_RECENT_TARGET_POSE s1)
             else Inr (e1, es1, s1))"

text \<open>Lines 81-144. The first event is the world at entry.\<close>

definition moveToPose :: "vector3 \<Rightarrow> real \<Rightarrow> event \<Rightarrow> event list \<Rightarrow> pose_tracking \<Rightarrow> run" where
  "moveToPose positional_tolerance angular_tolerance e es s =
     (case startup e es s of
        Inl r \<Rightarrow> r
      | Inr (e1, es1, s1) \<Rightarrow> track positional_tolerance angular_tolerance e1 es1 s1)"

subsection \<open>Observations on a run\<close>

fun status_of :: "run \<Rightarrow> PoseTrackingStatusCode option" where
  "status_of (Returned code s) = Some code"
| "status_of (Uncaught x s) = None"
| "status_of (Running s) = None"

fun tracker_of :: "run \<Rightarrow> pose_tracking" where
  "tracker_of (Returned code s) = s"
| "tracker_of (Uncaught x s) = s"
| "tracker_of (Running s) = s"

text \<open>The commands sent so far, and whether a controller is as \<open>reset\<close> leaves it.\<close>

fun commands_of :: "effect list \<Rightarrow> twist_stamped list" where
  "commands_of [] = []"
| "commands_of (Slept d # fs) = commands_of fs"
| "commands_of (Published m # fs) = m # commands_of fs"

definition commands :: "pose_tracking \<Rightarrow> twist_stamped list" where
  "commands s = commands_of (effects s)"


text \<open>
  What a step leaves alone. The callback and \<^verbatim>\<open>stopMotion()\<close> leave everything but the
  target pose and the stop flag; the startup phase leaves the controllers, the cached
  angular error and the commands sent, and never clears the stop flag.
\<close>

definition untouched :: "pose_tracking \<Rightarrow> pose_tracking \<Rightarrow> bool" where
  "untouched s s' \<longleftrightarrow>
     loop_rate s' = loop_rate s \<and> planning_frame s' = planning_frame s \<and>
     end_effector_transform s' = end_effector_transform s \<and>
     end_effector_transform_stamp s' = end_effector_transform_stamp s \<and>
     angular_error s' = angular_error s \<and>
     cartesian_position_pids s' = cartesian_position_pids s \<and>
     cartesian_orientation_pids s' = cartesian_orientation_pids s \<and>
     effects s' = effects s"

definition bank_kept :: "pose_tracking \<Rightarrow> pose_tracking \<Rightarrow> bool" where
  "bank_kept s s' \<longleftrightarrow>
     angular_error s' = angular_error s \<and>
     cartesian_position_pids s' = cartesian_position_pids s \<and>
     cartesian_orientation_pids s' = cartesian_orientation_pids s \<and>
     commands s' = commands s \<and>
     (stop_requested s \<longrightarrow> stop_requested s')"

text \<open>The constructor's bank: three position controllers and one orientation controller.\<close>

definition bank_sized :: "pose_tracking \<Rightarrow> bool" where
  "bank_sized s \<longleftrightarrow>
     length (cartesian_position_pids s) = 3 \<and> length (cartesian_orientation_pids s) = 1"


text \<open>
  The events of the startup loop when no pose turns up: those that follow the entry, up to
  and including the first at which the startup time has run out.
\<close>

fun startup_window :: "real \<Rightarrow> event list \<Rightarrow> event list" where
  "startup_window start_time [] = []"
| "startup_window start_time (e # es) =
     (if clock e - start_time < DEFAULT_POSE_TIMEOUT then e # startup_window start_time es else [e])"

subsection \<open>A tracker and a world to run it in\<close>

definition demo_params :: ros_params where
  "demo_params =
     \<lparr> param_planning_frame = ''world'', publish_period = 1 / 100, param_windup_limit = 1 / 10,
       x_proportional_gain = 1, y_proportional_gain = 1, z_proportional_gain = 1,
       x_integral_gain = 1, y_integral_gain = 1, z_integral_gain = 1,
       x_derivative_gain = 0, y_derivative_gain = 0, z_derivative_gain = 0,
       angular_proportional_gain = 1, angular_integral_gain = 1, angular_derivative_gain = 0 \<rparr>"

definition demo_transform :: isometry where
  "demo_transform =
     \<lparr> translation = \<lparr> vx = 0, vy = 0, vz = 0 \<rparr>,
       rotation = \<lparr> qw = 1, qx = 0, qy = 0, qz = 0 \<rparr> \<rparr>"

definition demo_tracker :: pose_tracking where
  "demo_tracker = PoseTracking demo_params demo_transform"

definition demo_target :: "string \<Rightarrow> pose_stamped" where
  "demo_target frame =
     \<lparr> header = \<lparr> stamp = 0, frame_id = frame \<rparr>,
       pose = \<lparr> position = \<lparr> vx = 1, vy = 0, vz = 0 \<rparr>,
                orientation = \<lparr> qw = 1, qx = 0, qy = 0, qz = 0 \<rparr> \<rparr> \<rparr>"

definition demo_tolerance :: vector3 where
  "demo_tolerance = \<lparr> vx = 1 / 100, vy = 1 / 100, vz = 1 / 100 \<rparr>"

text \<open>An event at which nothing happens but the clock and a fresh end-effector pose.\<close>

definition tick :: "real \<Rightarrow> event" where
  "tick t =
     \<lparr> clock = t, target_msgs = [], stop_motion = False, command_frame = Some demo_transform,
       ros_ok = True \<rparr>"

definition target_arrives :: "real \<Rightarrow> event" where
  "target_arrives t =
     (tick t)\<lparr> target_msgs := [\<lparr> msg = demo_target ''world'', in_planning_frame = None \<rparr>] \<rparr>"

definition stop_asked :: "real \<Rightarrow> event" where
  "stop_asked t = (tick t)\<lparr> stop_motion := True \<rparr>"

definition home_arrives :: "real \<Rightarrow> event" where
  "home_arrives t =
     (tick t)\<lparr> target_msgs :=
       [\<lparr> msg = (demo_target ''world'')\<lparr> pose := \<lparr> position = translation demo_transform,
                                                   orientation = rotation demo_transform \<rparr> \<rparr>,
          in_planning_frame = None \<rparr>] \<rparr>"

definition blind :: "real \<Rightarrow> event" where
  "blind t = (tick t)\<lparr> command_frame := None \<rparr>"

definition chasing :: "pose_tracking \<Rightarrow> pose_tracking" where
  "chasing s = s\<lparr> target_pose := demo_target ''world'' \<rparr>"

definition world_arrival :: arrival where
  "world_arrival = \<lparr> msg = demo_target ''world'', in_planning_frame = None \<rparr>"

definition camera_arrival :: arrival where
  "camera_arrival = \<lparr> msg = demo_target ''camera'', in_planning_frame = None \<rparr>"

text \<open>An event that hands the callback a message whose lookup fails.\<close>

definition camera_arrives :: "real \<Rightarrow> event" where
  "camera_arrives t = (tick t)\<lparr> target_msgs := [camera_arrival] \<rparr>"

text \<open>
  Three worlds after an entry at time 10. In the first a target one metre away arrives
  after a millisecond, the tracker is left alone for a pass and is then asked to stop. In
  the second the target that arrives is where the end effector is. In the third no target
  ever arrives and the clock runs past the startup time.
\<close>

definition tracking_world :: "event list" where
  "tracking_world = [target_arrives (10001 / 1000), tick (10002 / 1000), stop_asked (10003 / 1000)]"

definition home_world :: "event list" where
  "home_world = [home_arrives (10001 / 1000)]"

definition silent_world :: "event list" where
  "silent_world = [tick (1005 / 100), tick (101 / 10)]"

section \<open>Properties\<close>

subsection \<open>Quaternions and controllers\<close>

lemma atan2_first_quadrant:
  assumes "0 < n" and "0 \<le> a"
  shows "0 \<le> atan2 n a \<and> atan2 n a \<le> pi / 2"
proof (cases "0 < a")
  case True
  then have "0 \<le> n / a" using assms by simp
  then have "0 \<le> arctan (n / a)" by simp
  moreover have "arctan (n / a) < pi / 2" by (rule arctan_ubound)
  ultimately show ?thesis using True by (simp add: atan2_def)
next
  case False
  then have "a = 0" using assms by simp
  then show ?thesis using assms by (simp add: atan2_def)
qed

lemma AngleAxisd_angle_range: "0 \<le> angle (AngleAxisd q) \<and> angle (AngleAxisd q) \<le> pi"
proof -
  let ?n = "sqrt (qx q * qx q + qy q * qy q + qz q * qz q)"
  have n0: "0 \<le> ?n" by simp
  show ?thesis
  proof (cases "?n = 0")
    case True
    then show ?thesis by (simp add: AngleAxisd_def)
  next
    case False
    then have "0 < ?n" using n0 by linarith
    then have "0 \<le> atan2 ?n \<bar>qw q\<bar> \<and> atan2 ?n \<bar>qw q\<bar> \<le> pi / 2"
      by (intro atan2_first_quadrant) simp_all
    then show ?thesis using False by (simp add: AngleAxisd_def Let_def)
  qed
qed

lemma q_mult_inverse_self:
  "qx (q_mult q (q_inverse q)) = 0 \<and> qy (q_mult q (q_inverse q)) = 0 \<and>
   qz (q_mult q (q_inverse q)) = 0"
  by (simp add: q_mult_def q_inverse_def Let_def)

lemma AngleAxisd_no_vector_part:
  "qx q = 0 \<Longrightarrow> qy q = 0 \<Longrightarrow> qz q = 0 \<Longrightarrow> angle (AngleAxisd q) = 0"
  by (simp add: AngleAxisd_def)

lemma AngleAxisd_axis_unit:
  "vx (axis (AngleAxisd q)) * vx (axis (AngleAxisd q)) +
   vy (axis (AngleAxisd q)) * vy (axis (AngleAxisd q)) +
   vz (axis (AngleAxisd q)) * vz (axis (AngleAxisd q)) = 1"
proof -
  define S where "S = qx q * qx q + qy q * qy q + qz q * qz q"
  define m where "m = (if qw q < 0 then - sqrt S else sqrt S)"
  have S0: "0 \<le> S" by (simp add: S_def)
  show ?thesis
  proof (cases "sqrt S = 0")
    case True
    then show ?thesis by (simp add: AngleAxisd_def S_def)
  next
    case False
    then have Sn: "S \<noteq> 0" by auto
    have mm: "m * m = S" using S0 by (simp add: m_def)
    have ax: "axis (AngleAxisd q) = \<lparr> vx = qx q / m, vy = qy q / m, vz = qz q / m \<rparr>"
      using False by (simp add: AngleAxisd_def Let_def S_def m_def)
    have "qx q / m * (qx q / m) + qy q / m * (qy q / m) + qz q / m * (qz q / m) = S / (m * m)"
      by (simp add: S_def add_divide_distrib)
    also have "\<dots> = 1" using Sn mm by simp
    finally show ?thesis by (simp add: ax)
  qed
qed

lemma reset_eq_Pid:
  "reset c = Pid (p_gain c) (i_gain c) (d_gain c) (i_max c) (i_min c) (antiwindup c)"
  by (simp add: reset_def Pid_def)

subsection \<open>Steps, loops and what they keep\<close>

lemma targetPoseCallback_untouched:
  "targetPoseCallback now a s = Inr s' \<Longrightarrow> untouched s s' \<and> stop_requested s' = stop_requested s"
  by (auto simp: targetPoseCallback_def untouched_def split: if_splits option.splits)

lemma callbacks_untouched:
  "callbacks now as s = Inr s' \<Longrightarrow> untouched s s' \<and> stop_requested s' = stop_requested s"
proof (induction as arbitrary: s)
  case Nil
  then show ?case by (simp add: untouched_def)
next
  case (Cons a as)
  from Cons.prems obtain s1 where a: "targetPoseCallback now a s = Inr s1"
    and r: "callbacks now as s1 = Inr s'"
    by (auto split: sum.splits)
  show ?case
    using targetPoseCallback_untouched [OF a] Cons.IH [OF r] by (simp add: untouched_def)
qed

lemma deliver_untouched:
  assumes "deliver e s = Inr s'"
  shows "untouched s s'" and "stop_requested s \<Longrightarrow> stop_requested s'"
  using assms callbacks_untouched [of "clock e" "target_msgs e" s]
  by (auto simp: deliver_def stopMotion_def untouched_def split: sum.splits if_splits)

lemma targetPoseCallback_thrown: "targetPoseCallback now a s = Inl (x, t) \<Longrightarrow> t = s"
  by (auto simp: targetPoseCallback_def split: if_splits option.splits)

lemma callbacks_thrown:
  "callbacks now as s = Inl (x, t) \<Longrightarrow> untouched s t \<and> stop_requested t = stop_requested s"
proof (induction as arbitrary: s)
  case Nil
  then show ?case by simp
next
  case (Cons a as)
  show ?case
  proof (cases "targetPoseCallback now a s")
    case (Inl p)
    with Cons.prems have "targetPoseCallback now a s = Inl (x, t)" by simp
    then have "t = s" by (rule targetPoseCallback_thrown)
    then show ?thesis by (simp add: untouched_def)
  next
    case (Inr s1)
    with Cons.prems have r: "callbacks now as s1 = Inl (x, t)" by simp
    show ?thesis
      using targetPoseCallback_untouched [OF Inr] Cons.IH [OF r] by (simp add: untouched_def)
  qed
qed

lemma deliver_thrown: "deliver e s = Inl (x, t) \<Longrightarrow> untouched s t"
  using callbacks_thrown [of "clock e" "target_msgs e" s x t]
  by (auto simp: deliver_def split: sum.splits)

lemma commands_of_append: "commands_of (fs @ gs) = commands_of fs @ commands_of gs"
  by (induction fs rule: commands_of.induct) simp_all

lemma bank_kept_refl: "bank_kept s s"
  by (simp add: bank_kept_def)

lemma bank_kept_trans: "bank_kept s s1 \<Longrightarrow> bank_kept s1 s2 \<Longrightarrow> bank_kept s s2"
  by (simp add: bank_kept_def)

lemma startup_body_kept: "bank_kept s (sleep d (getCommandFrameTransform e s))"
  by (simp add: bank_kept_def sleep_def getCommandFrameTransform_def commands_def
      commands_of_append split: option.splits)

lemma deliver_kept: "deliver e s = Inr s' \<Longrightarrow> bank_kept s s'"
  using deliver_untouched [of e s s'] by (simp add: bank_kept_def untouched_def commands_def)

lemma wait_for_poses_kept:
  "wait_for_poses start e es s = Inr (e1, es1, s1) \<Longrightarrow> bank_kept s s1"
proof (induction es arbitrary: e s)
  case Nil
  then show ?case by (simp add: bank_kept_refl split: if_splits)
next
  case (Cons e' es)
  show ?case
  proof (cases "(\<not> haveRecentTargetPose (clock e) DEFAULT_POSE_TIMEOUT s \<or>
          \<not> haveRecentEndEffectorPose (clock e) DEFAULT_POSE_TIMEOUT s) \<and>
         clock e - start < DEFAULT_POSE_TIMEOUT")
    case False
    with Cons.prems show ?thesis by (auto simp: bank_kept_refl)
  next
    case True
    let ?s' = "sleep 0.001 (getCommandFrameTransform e s)"
    from Cons.prems True obtain s'' where d: "deliver e' ?s' = Inr s''"
      and w: "wait_for_poses start e' es s'' = Inr (e1, es1, s1)"
      by (auto simp: Let_def split: sum.splits)
    have "bank_kept s ?s'" by (rule startup_body_kept)
    moreover have "bank_kept ?s' s''" using d by (rule deliver_kept)
    moreover have "bank_kept s'' s1" using w by (rule Cons.IH)
    ultimately show ?thesis by (blast intro: bank_kept_trans)
  qed
qed

lemma wait_for_poses_Inl: "wait_for_poses start e es s = Inl r \<Longrightarrow> status_of r = None"
proof (induction es arbitrary: e s)
  case Nil
  then show ?case by (auto split: if_splits)
next
  case (Cons e' es)
  then show ?case by (auto simp: Let_def split: if_splits sum.splits)
qed




lemma doPostMotionReset_flags:
  "\<not> stop_requested (doPostMotionReset s)" "angular_error (doPostMotionReset s) = 0"
  "effects (doPostMotionReset s) = effects s"
  by (simp_all add: doPostMotionReset_def)

lemma bank_sized_steps:
  "bank_sized (getCommandFrameTransform e s) = bank_sized s"
  "bank_sized (sleep d s) = bank_sized s"
  "bank_sized (publish m s) = bank_sized s"
  "bank_sized (snd (calculateTwistCommand now s)) = bank_sized s"
  by (simp_all add: bank_sized_def getCommandFrameTransform_def sleep_def publish_def
      calculateTwistCommand_def Let_def split_beta split: option.splits)

lemma bank_sized_deliver: "deliver e s = Inr s' \<Longrightarrow> bank_sized s' = bank_sized s"
  using deliver_untouched(1) [of e s s'] by (simp add: bank_sized_def untouched_def)

lemma cycle_Stop:
  assumes "cycle tol atol e s = Stop code s'"
  shows "code \<noteq> NO_RECENT_TARGET_POSE \<and>
         (\<exists>s1. s' = doPostMotionReset s1 \<and> bank_sized s1 = bank_sized s)"
  using assms bank_sized_steps(1) [of e s]
  by (auto simp: cycle_def Let_def split_beta split: if_splits)

lemma cycle_Continue:
  assumes "cycle tol atol e s = Continue s'"
  shows "bank_sized s' = bank_sized s \<and> (\<exists>m. effects s' = effects s @ [Published m])"
proof -
  let ?s1 = "getCommandFrameTransform e s"
  from assms have s': "s' = publish (fst (calculateTwistCommand (clock e) ?s1))
                              (snd (calculateTwistCommand (clock e) ?s1))"
    by (auto simp: cycle_def Let_def split_beta split: if_splits)
  have "effects (snd (calculateTwistCommand (clock e) ?s1)) = effects s"
    by (simp add: calculateTwistCommand_def Let_def split_beta getCommandFrameTransform_def
        split: option.splits)
  then have "\<exists>m. effects s' = effects s @ [Published m]"
    by (simp add: s' publish_def)
  moreover have "bank_sized s' = bank_sized s"
    by (simp add: s' bank_sized_steps)
  ultimately show ?thesis by simp
qed

lemma track_Returned:
  "track tol atol e es s = Returned code s' \<Longrightarrow>
     code \<noteq> NO_RECENT_TARGET_POSE \<and> (\<exists>s1. s' = doPostMotionReset s1 \<and> bank_sized s1 = bank_sized s)"
proof (induction es arbitrary: e s)
  case Nil
  then show ?case
    by (auto split: if_splits step.splits dest: cycle_Stop)
next
  case (Cons e' es)
  show ?case
  proof (cases "ros_ok e")
    case False
    with Cons.prems show ?thesis by auto
  next
    case True
    show ?thesis
    proof (cases "cycle tol atol e s")
      case (Stop c t)
      with Cons.prems True have "c = code" "t = s'" by simp_all
      with Stop show ?thesis by (auto dest: cycle_Stop)
    next
      case (Continue t)
      with Cons.prems True obtain t' where d: "deliver e' t = Inr t'"
        and r: "track tol atol e' es t' = Returned code s'"
        by (auto split: sum.splits)
      from Cons.IH [OF r] bank_sized_deliver [OF d] cycle_Continue [OF Continue]
      show ?thesis by auto
    qed
  qed
qed


lemma startup_Inr:
  assumes "startup e es s = Inr (e1, es1, s1)"
  shows "bank_kept s s1"
proof -
  let ?s0 = "s\<lparr> target_pose := set_stamp (clock e - 2 * DEFAULT_POSE_TIMEOUT) (target_pose s) \<rparr>"
  from assms have "wait_for_poses (clock e) e es ?s0 = Inr (e1, es1, s1)"
    by (auto simp: startup_def Let_def split: sum.splits if_splits)
  then have "bank_kept ?s0 s1" by (rule wait_for_poses_kept)
  then show ?thesis by (simp add: bank_kept_def commands_def)
qed

lemma startup_Returned:
  assumes "startup e es s = Inl (Returned code s')"
  shows "code = NO_RECENT_TARGET_POSE \<and> bank_kept s s'"
proof -
  let ?s0 = "s\<lparr> target_pose := set_stamp (clock e - 2 * DEFAULT_POSE_TIMEOUT) (target_pose s) \<rparr>"
  have "wait_for_poses (clock e) e es ?s0 \<noteq> Inl (Returned code s')"
    using wait_for_poses_Inl [of "clock e" e es ?s0 "Returned code s'"] by auto
  with assms obtain e1 es1 where w: "wait_for_poses (clock e) e es ?s0 = Inr (e1, es1, s')"
    and c: "code = NO_RECENT_TARGET_POSE"
    by (auto simp: startup_def Let_def split: sum.splits if_splits)
  from w have "bank_kept ?s0 s'" by (rule wait_for_poses_kept)
  then show ?thesis using c by (simp add: bank_kept_def commands_def)
qed

lemmas demo_defs =
  tracking_world_def silent_world_def home_world_def home_arrives_def blind_def chasing_def
  demo_params_def demo_transform_def demo_tracker_def demo_target_def demo_tolerance_def
  tick_def target_arrives_def stop_asked_def camera_arrival_def world_arrival_def
  camera_arrives_def
  PoseTracking_def initializePID_def Pid_def zero_pose_stamped_def
  x_pid_config_def y_pid_config_def z_pid_config_def angular_pid_config_def

lemmas run_defs =
  moveToPose_def startup_def cycle_def DEFAULT_POSE_TIMEOUT_def haveRecentTargetPose_def
  haveRecentEndEffectorPose_def satisfiesPoseTolerance_def set_stamp_def
  getCommandFrameTransform_def sleep_def publish_def deliver_def stopMotion_def
  targetPoseCallback_def doPostMotionReset_def reset_at_def reset_def
  calculateTwistCommand_def computeCommand_def clamp_def expectedCycleTime_def
  q_mult_def q_inverse_def squaredNorm_def AngleAxisd_def Let_def


lemma wait_for_poses_timed_out:
  "DEFAULT_POSE_TIMEOUT \<le> clock e - start \<Longrightarrow> wait_for_poses start e es s = Inr (e, es, s)"
  by (cases es) simp_all

lemma deliver_quiet:
  "target_msgs e = [] \<Longrightarrow> \<exists>s'. deliver e s = Inr s' \<and> target_pose s' = target_pose s"
  by (simp add: deliver_def stopMotion_def)

lemma wait_for_poses_quiet:
  assumes "stamp (header (target_pose s)) \<le> start - DEFAULT_POSE_TIMEOUT"
    and "start \<le> clock e"
    and "\<forall>e' \<in> set (startup_window start es). target_msgs e' = [] \<and> start \<le> clock e'"
    and "DEFAULT_POSE_TIMEOUT \<le> clock e - start \<or> (\<exists>e' \<in> set es. DEFAULT_POSE_TIMEOUT \<le> clock e' - start)"
  shows "\<exists>e1 es1 s1. wait_for_poses start e es s = Inr (e1, es1, s1) \<and>
           target_pose s1 = target_pose s \<and> start \<le> clock e1"
  using assms
proof (induction es arbitrary: e s)
  case Nil
  then show ?case by (simp add: wait_for_poses_timed_out)
next
  case (Cons e' es)
  show ?case
  proof (cases "DEFAULT_POSE_TIMEOUT \<le> clock e - start")
    case True
    then show ?thesis using Cons.prems(2) by (simp add: wait_for_poses_timed_out)
  next
    case False
    have stale: "\<not> haveRecentTargetPose (clock e) DEFAULT_POSE_TIMEOUT s"
      using Cons.prems(1,2) by (simp add: haveRecentTargetPose_def)
    let ?s' = "sleep 0.001 (getCommandFrameTransform e s)"
    have tp: "target_pose ?s' = target_pose s"
      by (simp add: sleep_def getCommandFrameTransform_def split: option.splits)
    have e': "target_msgs e' = [] \<and> start \<le> clock e'"
      using Cons.prems(3) by (simp split: if_splits)
    then obtain s'' where d: "deliver e' ?s' = Inr s''" and tp': "target_pose s'' = target_pose ?s'"
      using deliver_quiet [of e' ?s'] by auto
    have step: "wait_for_poses start e (e' # es) s = wait_for_poses start e' es s''"
      using False stale d by (simp add: Let_def)
    have "\<exists>e1 es1 s1. wait_for_poses start e' es s'' = Inr (e1, es1, s1) \<and>
           target_pose s1 = target_pose s'' \<and> start \<le> clock e1"
    proof (cases "DEFAULT_POSE_TIMEOUT \<le> clock e' - start")
      case True
      then have "wait_for_poses start e' es s'' = Inr (e', es, s'')"
        by (rule wait_for_poses_timed_out)
      then show ?thesis using e' by simp
    next
      case late: False
      show ?thesis
      proof (rule Cons.IH)
        show "stamp (header (target_pose s'')) \<le> start - DEFAULT_POSE_TIMEOUT"
          using Cons.prems(1) tp tp' by simp
        show "start \<le> clock e'" using e' by simp
        show "\<forall>e'a\<in>set (startup_window start es). target_msgs e'a = [] \<and> start \<le> clock e'a"
          using Cons.prems(3) late by simp
        show "DEFAULT_POSE_TIMEOUT \<le> clock e' - start \<or>
              (\<exists>e'a\<in>set es. DEFAULT_POSE_TIMEOUT \<le> clock e'a - start)"
          using Cons.prems(4) False late by auto
      qed
    qed
    then show ?thesis unfolding step using tp tp' by simp
  qed
qed

lemma commands_steps:
  "commands (doPostMotionReset s) = commands s"
  "commands (getCommandFrameTransform e s) = commands s"
  "commands (publish m s) = commands s @ [m]"
  "commands (snd (calculateTwistCommand now s)) = commands s"
  by (simp_all add: commands_def doPostMotionReset_def getCommandFrameTransform_def publish_def
      calculateTwistCommand_def Let_def split_beta commands_of_append split: option.splits)

lemma cycle_Stop_effects: "cycle tol atol e s = Stop code s' \<Longrightarrow> effects s' = effects s"
  by (auto simp: cycle_def Let_def split_beta doPostMotionReset_def getCommandFrameTransform_def
      split: if_splits option.splits)

lemma track_effects:
  "\<exists>ms. effects (tracker_of (track tol atol e es s)) = effects s @ map Published ms"
proof (induction es arbitrary: e s)
  case Nil
  show ?case
  proof (cases "cycle tol atol e s")
    case (Stop c t)
    then have "effects t = effects s" by (rule cycle_Stop_effects)
    then show ?thesis using Stop by (auto simp: doPostMotionReset_flags(3) intro: exI [of _ "[]"])
  next
    case (Continue t)
    from cycle_Continue [OF Continue] obtain m where "effects t = effects s @ [Published m]" by auto
    then show ?thesis using Continue
      by (auto simp: doPostMotionReset_flags(3) intro: exI [of _ "[]"] exI [of _ "[m]"])
  qed
next
  case (Cons e' es)
  show ?case
  proof (cases "cycle tol atol e s")
    case (Stop c t)
    then have "effects t = effects s" by (rule cycle_Stop_effects)
    then show ?thesis using Stop by (auto simp: doPostMotionReset_flags(3) intro: exI [of _ "[]"])
  next
    case (Continue t)
    from cycle_Continue [OF Continue] obtain m where m: "effects t = effects s @ [Published m]" by auto
    show ?thesis
    proof (cases "ros_ok e")
      case False
      then show ?thesis by (auto simp: doPostMotionReset_flags(3) intro: exI [of _ "[]"])
    next
      case True
      show ?thesis
      proof (cases "deliver e' t")
        case (Inl p)
        obtain x u where p: "p = (x, u)" by (cases p) auto
        have "effects u = effects t"
          using deliver_thrown [of e' t x u] Inl p by (simp add: untouched_def)
        then show ?thesis using True Continue m Inl p by (auto intro: exI [of _ "[m]"])
      next
        case (Inr t')
        have "effects t' = effects t" using deliver_untouched(1) [OF Inr] by (simp add: untouched_def)
        moreover obtain ms where "effects (tracker_of (track tol atol e' es t')) = effects t' @ map Published ms"
          using Cons.IH by blast
        ultimately have "effects (tracker_of (track tol atol e' es t')) = effects s @ map Published (m # ms)"
          using m by simp
        then show ?thesis using True Continue Inr by (auto intro: exI [of _ "m # ms"])
      qed
    qed
  qed
qed






lemma callbacks_append:
  "callbacks now (as @ bs) s =
     (case callbacks now as s of Inl p \<Rightarrow> Inl p | Inr s' \<Rightarrow> callbacks now bs s')"
  by (induction as arbitrary: s) (simp_all split: sum.splits)

lemma commands_of_Published: "commands_of (map Published ms) = ms"
  by (induction ms) simp_all

lemma cycle_miss:
  "\<not> satisfiesPoseTolerance tol atol s \<Longrightarrow> cycle tol atol e s = Stop code t \<Longrightarrow> code \<noteq> SUCCESS"
  by (auto simp: cycle_def Let_def split_beta split: if_splits)

lemma track_miss:
  assumes ok: "ros_ok e" and miss: "\<not> satisfiesPoseTolerance tol atol s"
    and ret: "track tol atol e es s = Returned SUCCESS s'"
  shows "\<exists>m ms. commands s' = commands s @ m # ms"
proof (cases "cycle tol atol e s")
  case (Stop code t)
  then have "code \<noteq> SUCCESS" using miss by (auto dest: cycle_miss)
  with Stop ok ret show ?thesis by (cases es) simp_all
next
  case (Continue t)
  from cycle_Continue [OF Continue] obtain m where m: "effects t = effects s @ [Published m]"
    by auto
  from Continue ok ret obtain e' es' where es: "es = e' # es'" by (cases es) simp_all
  from Continue ok ret es obtain t' where d: "deliver e' t = Inr t'"
    and r: "track tol atol e' es' t' = Returned SUCCESS s'"
    by (auto split: sum.splits prod.splits)
  have "effects t' = effects t" using deliver_untouched(1) [OF d] by (simp add: untouched_def)
  moreover obtain ms where "effects (tracker_of (track tol atol e' es' t')) = effects t' @ map Published ms"
    using track_effects by blast
  ultimately have "effects s' = effects s @ Published m # map Published ms"
    using m r by simp
  then have "commands s' = commands s @ m # ms"
    by (simp add: commands_def commands_of_append commands_of_Published)
  then show ?thesis by blast
qed

subsection \<open>The claims\<close>



text \<open>
  C2. One pass of the tracking loop checks in this order. If the tolerance is satisfied the
  pass stops with \<open>SUCCESS\<close>: no command is sent and the end-effector pose is not read
  again, whatever its age and whatever the stop flag. Otherwise the end-effector pose is
  read again; if it is then \<open>DEFAULT_POSE_TIMEOUT\<close> old or older the pass stops with
  \<open>NO_RECENT_END_EFFECTOR_POSE\<close>, whatever the stop flag. Otherwise, if a stop was
  requested, the pass stops with \<open>STOP_REQUESTED\<close>. Only otherwise is a command computed
  and published. While \<^verbatim>\<open>ros::ok()\<close> holds, the loop is this pass, over and over.
\<close>

theorem cycle_check_order:
  "(satisfiesPoseTolerance tol atol s \<longrightarrow>
      cycle tol atol e s = Stop SUCCESS (doPostMotionReset s) \<and>
      commands (doPostMotionReset s) = commands s \<and>
      end_effector_transform_stamp (doPostMotionReset s) = end_effector_transform_stamp s) \<and>
   (\<not> satisfiesPoseTolerance tol atol s \<and>
    DEFAULT_POSE_TIMEOUT \<le> clock e - end_effector_transform_stamp (getCommandFrameTransform e s) \<longrightarrow>
      cycle tol atol e s =
        Stop NO_RECENT_END_EFFECTOR_POSE (doPostMotionReset (getCommandFrameTransform e s)) \<and>
      commands (doPostMotionReset (getCommandFrameTransform e s)) = commands s) \<and>
   (\<not> satisfiesPoseTolerance tol atol s \<and>
    clock e - end_effector_transform_stamp (getCommandFrameTransform e s) < DEFAULT_POSE_TIMEOUT \<and>
    stop_requested s \<longrightarrow>
      cycle tol atol e s = Stop STOP_REQUESTED (doPostMotionReset (getCommandFrameTransform e s)) \<and>
      commands (doPostMotionReset (getCommandFrameTransform e s)) = commands s) \<and>
   (\<not> satisfiesPoseTolerance tol atol s \<and>
    clock e - end_effector_transform_stamp (getCommandFrameTransform e s) < DEFAULT_POSE_TIMEOUT \<and>
    \<not> stop_requested s \<longrightarrow>
      cycle tol atol e s =
        Continue (publish (fst (calculateTwistCommand (clock e) (getCommandFrameTransform e s)))
                          (snd (calculateTwistCommand (clock e) (getCommandFrameTransform e s)))) \<and>
      commands (publish (fst (calculateTwistCommand (clock e) (getCommandFrameTransform e s)))
                        (snd (calculateTwistCommand (clock e) (getCommandFrameTransform e s)))) =
        commands s @ [fst (calculateTwistCommand (clock e) (getCommandFrameTransform e s))]) \<and>
   (ros_ok e \<longrightarrow>
      track tol atol e es s =
        (case cycle tol atol e s of
           Stop code s' \<Rightarrow> Returned code s'
         | Continue s' \<Rightarrow>
             (case es of
                [] \<Rightarrow> Running s'
              | e' # es' \<Rightarrow>
                  (case deliver e' s' of
                     Inl (x, t) \<Rightarrow> Uncaught x t
                   | Inr s'' \<Rightarrow> track tol atol e' es' s''))))"
proof -
  have stop: "stop_requested (getCommandFrameTransform e s) = stop_requested s"
    by (simp add: getCommandFrameTransform_def split: option.splits)
  have stamp: "end_effector_transform_stamp (doPostMotionReset s) = end_effector_transform_stamp s"
    by (simp add: doPostMotionReset_def)
  have loop: "track tol atol e es s =
        (case cycle tol atol e s of
           Stop code s' \<Rightarrow> Returned code s'
         | Continue s' \<Rightarrow>
             (case es of
                [] \<Rightarrow> Running s'
              | e' # es' \<Rightarrow>
                  (case deliver e' s' of
                     Inl (x, t) \<Rightarrow> Uncaught x t
                   | Inr s'' \<Rightarrow> track tol atol e' es' s'')))" if "ros_ok e"
    using that by (cases es) (simp_all split: step.splits)
  show ?thesis
    using stop stamp loop
    by (simp add: cycle_def Let_def split_beta haveRecentEndEffectorPose_def commands_steps)
qed

text \<open>
  The four branches, each at a tracker and an event that take it: a tracker at its target
  with a stop requested and no pose to read; one metre from the target, stop requested, no
  pose to read; the same with a fresh pose; and with a fresh pose and no stop requested.
\<close>

theorem cycle_check_order_witness:
  "cycle demo_tolerance (1 / 100) (blind 10) (stopMotion demo_tracker)
     = Stop SUCCESS (doPostMotionReset (stopMotion demo_tracker)) \<and>
   cycle demo_tolerance (1 / 100) (blind 10) (stopMotion (chasing demo_tracker))
     = Stop NO_RECENT_END_EFFECTOR_POSE
         (doPostMotionReset (getCommandFrameTransform (blind 10) (stopMotion (chasing demo_tracker)))) \<and>
   cycle demo_tolerance (1 / 100) (tick 10) (stopMotion (chasing demo_tracker))
     = Stop STOP_REQUESTED
         (doPostMotionReset (getCommandFrameTransform (tick 10) (stopMotion (chasing demo_tracker)))) \<and>
   cycle demo_tolerance (1 / 100) (tick 10) (chasing demo_tracker)
     = Continue (publish
         (fst (calculateTwistCommand (clock (tick 10)) (getCommandFrameTransform (tick 10) (chasing demo_tracker))))
         (snd (calculateTwistCommand (clock (tick 10)) (getCommandFrameTransform (tick 10) (chasing demo_tracker))))) \<and>
   length (commands (publish
       (fst (calculateTwistCommand (clock (tick 10)) (getCommandFrameTransform (tick 10) (chasing demo_tracker))))
       (snd (calculateTwistCommand (clock (tick 10)) (getCommandFrameTransform (tick 10) (chasing demo_tracker))))))
     = 1"
proof -
  have a: "satisfiesPoseTolerance demo_tolerance (1 / 100) (stopMotion demo_tracker)"
    by (simp add: demo_defs run_defs)
  have b: "\<not> satisfiesPoseTolerance demo_tolerance (1 / 100) (stopMotion (chasing demo_tracker))"
    and b': "DEFAULT_POSE_TIMEOUT \<le> clock (blind 10) -
               end_effector_transform_stamp
                 (getCommandFrameTransform (blind 10) (stopMotion (chasing demo_tracker)))"
    and c: "clock (tick 10) -
               end_effector_transform_stamp
                 (getCommandFrameTransform (tick 10) (stopMotion (chasing demo_tracker)))
             < DEFAULT_POSE_TIMEOUT"
    and c': "stop_requested (stopMotion (chasing demo_tracker))"
    by (simp_all add: demo_defs run_defs)
  have d: "\<not> satisfiesPoseTolerance demo_tolerance (1 / 100) (chasing demo_tracker)"
    and d': "clock (tick 10) -
               end_effector_transform_stamp (getCommandFrameTransform (tick 10) (chasing demo_tracker))
             < DEFAULT_POSE_TIMEOUT"
    and d'': "\<not> stop_requested (chasing demo_tracker)"
    and d0: "commands (chasing demo_tracker) = []"
    by (simp_all add: demo_defs run_defs commands_def)
  show ?thesis
    using cycle_check_order [of demo_tolerance "1 / 100" "stopMotion demo_tracker" "blind 10" "[]"]
      cycle_check_order [of demo_tolerance "1 / 100" "stopMotion (chasing demo_tracker)" "blind 10" "[]"]
      cycle_check_order [of demo_tolerance "1 / 100" "stopMotion (chasing demo_tracker)" "tick 10" "[]"]
      cycle_check_order [of demo_tolerance "1 / 100" "chasing demo_tracker" "tick 10" "[]"]
      a b b' c c' d d' d'' d0
    by simp
qed

text \<open>
  C3. \<^verbatim>\<open>moveToPose\<close> first sets the cached target's stamp to now minus twice the pose
  timeout. If no target message is delivered during the startup loop, the clock does not
  fall behind its reading at entry and reaches entry plus the startup time at some event,
  then \<^verbatim>\<open>moveToPose\<close> returns \<open>NO_RECENT_TARGET_POSE\<close> and has published no command.
\<close>

theorem moveToPose_stale_target:
  assumes quiet: "\<forall>e' \<in> set (startup_window (clock e) es). target_msgs e' = [] \<and> clock e \<le> clock e'"
    and late: "\<exists>e' \<in> set es. DEFAULT_POSE_TIMEOUT \<le> clock e' - clock e"
  shows "status_of (moveToPose tol atol e es s) = Some NO_RECENT_TARGET_POSE \<and>
         commands (tracker_of (moveToPose tol atol e es s)) = commands s"
proof -
  let ?s0 = "s\<lparr> target_pose := set_stamp (clock e - 2 * DEFAULT_POSE_TIMEOUT) (target_pose s) \<rparr>"
  have st: "stamp (header (target_pose ?s0)) = clock e - 2 * DEFAULT_POSE_TIMEOUT"
    by (simp add: set_stamp_def)
  have "stamp (header (target_pose ?s0)) \<le> clock e - DEFAULT_POSE_TIMEOUT"
    unfolding st by (simp add: DEFAULT_POSE_TIMEOUT_def)
  then have "\<exists>e1 es1 s1. wait_for_poses (clock e) e es ?s0 = Inr (e1, es1, s1) \<and>
           target_pose s1 = target_pose ?s0 \<and> clock e \<le> clock e1"
    using quiet late by (intro wait_for_poses_quiet) auto
  then obtain e1 es1 s1 where w: "wait_for_poses (clock e) e es ?s0 = Inr (e1, es1, s1)"
    and tp: "target_pose s1 = target_pose ?s0" and c: "clock e \<le> clock e1"
    by blast
  have "stamp (header (target_pose s1)) = clock e - 2 * DEFAULT_POSE_TIMEOUT"
    using tp st by simp
  then have "\<not> haveRecentTargetPose (clock e1) DEFAULT_POSE_TIMEOUT s1"
    using c by (simp add: haveRecentTargetPose_def DEFAULT_POSE_TIMEOUT_def)
  then have r: "moveToPose tol atol e es s = Returned NO_RECENT_TARGET_POSE s1"
    using w by (simp add: moveToPose_def startup_def Let_def)
  have "bank_kept ?s0 s1" using w by (rule wait_for_poses_kept)
  then show ?thesis by (simp add: r bank_kept_def commands_def)
qed

text \<open>The theorem on a new tracker in the silent world.\<close>

theorem moveToPose_stale_target_witness:
  "map target_msgs (startup_window (clock (tick 10)) silent_world) = [[], []] \<and>
   map clock (startup_window (clock (tick 10)) silent_world) = [1005 / 100, 101 / 10] \<and>
   clock (tick 10) = 10 \<and>
   DEFAULT_POSE_TIMEOUT \<le> clock (last silent_world) - clock (tick 10) \<and>
   status_of (moveToPose demo_tolerance (1 / 100) (tick 10) silent_world demo_tracker)
     = Some NO_RECENT_TARGET_POSE \<and>
   commands (tracker_of (moveToPose demo_tolerance (1 / 100) (tick 10) silent_world demo_tracker)) = []"
proof -
  have q: "\<forall>e' \<in> set (startup_window (clock (tick 10)) silent_world).
       target_msgs e' = [] \<and> clock (tick 10) \<le> clock e'"
    by (simp add: silent_world_def tick_def DEFAULT_POSE_TIMEOUT_def)
  have l: "\<exists>e' \<in> set silent_world. DEFAULT_POSE_TIMEOUT \<le> clock e' - clock (tick 10)"
    by (simp add: silent_world_def tick_def DEFAULT_POSE_TIMEOUT_def)
  have "commands demo_tracker = []"
    by (simp add: commands_def demo_tracker_def PoseTracking_def)
  moreover have "map target_msgs (startup_window (clock (tick 10)) silent_world) = [[], []]"
    and "map clock (startup_window (clock (tick 10)) silent_world) = [1005 / 100, 101 / 10]"
    and "clock (tick 10) = 10"
    and "DEFAULT_POSE_TIMEOUT \<le> clock (last silent_world) - clock (tick 10)"
    by (simp_all add: silent_world_def tick_def DEFAULT_POSE_TIMEOUT_def)
  ultimately show ?thesis
    using moveToPose_stale_target [OF q l, of demo_tolerance "1 / 100" demo_tracker] by simp
qed

text \<open>
  C4. The tolerance check succeeds exactly when the three positional errors (target
  position minus current position, per axis) are each strictly below their tolerance in
  absolute value and the absolute cached angular error is strictly below the angular
  tolerance.
\<close>

theorem satisfiesPoseTolerance_iff:
  "satisfiesPoseTolerance tol atol s \<longleftrightarrow>
     \<bar>vx (position (pose (target_pose s))) - vx (translation (end_effector_transform s))\<bar> < vx tol \<and>
     \<bar>vy (position (pose (target_pose s))) - vy (translation (end_effector_transform s))\<bar> < vy tol \<and>
     \<bar>vz (position (pose (target_pose s))) - vz (translation (end_effector_transform s))\<bar> < vz tol \<and>
     \<bar>angular_error s\<bar> < atol"
  by (simp add: satisfiesPoseTolerance_def)

text \<open>
  C5. The angular error that \<^verbatim>\<open>calculateTwistCommand\<close> caches is the rotation angle of
  \<open>q_desired * inverse(q_current)\<close>. For every pair of quaternions (unit or not) that angle
  lies in \<open>[0, \<pi>]\<close>, and it is zero when the current orientation is the target
  orientation. Over the reals the zero is exact.
\<close>

theorem angular_error_rotation_angle:
  "angular_error (snd (calculateTwistCommand now s)) =
     angle (AngleAxisd (q_mult (orientation (pose (target_pose s)))
                               (q_inverse (rotation (end_effector_transform s))))) \<and>
   0 \<le> angle (AngleAxisd (q_mult q_desired (q_inverse q_current))) \<and>
   angle (AngleAxisd (q_mult q_desired (q_inverse q_current))) \<le> pi \<and>
   angle (AngleAxisd (q_mult q_current (q_inverse q_current))) = 0"
proof -
  have "angular_error (snd (calculateTwistCommand now s)) =
     angle (AngleAxisd (q_mult (orientation (pose (target_pose s)))
                               (q_inverse (rotation (end_effector_transform s)))))"
    by (simp add: calculateTwistCommand_def Let_def split_beta)
  moreover have "angle (AngleAxisd (q_mult q_current (q_inverse q_current))) = 0"
    using q_mult_inverse_self [of q_current] by (intro AngleAxisd_no_vector_part) simp_all
  ultimately show ?thesis
    using AngleAxisd_angle_range [of "q_mult q_desired (q_inverse q_current)"] by simp
qed

text \<open>
  C6. The command's linear x, y, z are the outputs of the position controllers 0, 1, 2 on
  the x, y, z components of target position minus current position, each with the loop
  rate's expected cycle time as period (the configured publish period for a tracker as
  constructed). The angular x, y, z are one scalar, the output of the orientation
  controller on the rotation angle of the error quaternion, times the components of the
  error axis, which is a unit vector.
\<close>

theorem twist_command_components:
  "vx (linear_part (twist (fst (calculateTwistCommand now s)))) =
     fst (computeCommand (cartesian_position_pids s ! 0)
           (vx (position (pose (target_pose s))) - vx (translation (end_effector_transform s)))
           (expectedCycleTime (loop_rate s))) \<and>
   vy (linear_part (twist (fst (calculateTwistCommand now s)))) =
     fst (computeCommand (cartesian_position_pids s ! 1)
           (vy (position (pose (target_pose s))) - vy (translation (end_effector_transform s)))
           (expectedCycleTime (loop_rate s))) \<and>
   vz (linear_part (twist (fst (calculateTwistCommand now s)))) =
     fst (computeCommand (cartesian_position_pids s ! 2)
           (vz (position (pose (target_pose s))) - vz (translation (end_effector_transform s)))
           (expectedCycleTime (loop_rate s))) \<and>
   (let axis_angle = AngleAxisd (q_mult (orientation (pose (target_pose s)))
                                        (q_inverse (rotation (end_effector_transform s))));
        ang_vel_magnitude = fst (computeCommand (cartesian_orientation_pids s ! 0)
                                   (angle axis_angle) (expectedCycleTime (loop_rate s)))
    in vx (angular_part (twist (fst (calculateTwistCommand now s)))) =
         ang_vel_magnitude * vx (axis axis_angle) \<and>
       vy (angular_part (twist (fst (calculateTwistCommand now s)))) =
         ang_vel_magnitude * vy (axis axis_angle) \<and>
       vz (angular_part (twist (fst (calculateTwistCommand now s)))) =
         ang_vel_magnitude * vz (axis axis_angle) \<and>
       vx (axis axis_angle) * vx (axis axis_angle) + vy (axis axis_angle) * vy (axis axis_angle) +
         vz (axis axis_angle) * vz (axis axis_angle) = 1) \<and>
   expectedCycleTime (loop_rate (PoseTracking prm transform0)) = publish_period prm"
proof -
  have "expectedCycleTime (loop_rate (PoseTracking prm transform0)) = publish_period prm"
    by (simp add: expectedCycleTime_def PoseTracking_def)
  then show ?thesis
    using AngleAxisd_axis_unit
      [of "q_mult (orientation (pose (target_pose s))) (q_inverse (rotation (end_effector_transform s)))"]
    by (simp add: calculateTwistCommand_def Let_def split_beta)
qed

text \<open>
  C7, as the code has it. When the message is in another frame and the lookup fails,
  \<^verbatim>\<open>targetPoseCallback\<close> throws at the lookup with the tracker exactly as it was
  handed over, so the cached target pose and its stamp are what they were. It does not
  return, so it does not skip in silence: the exception leaves the callback. Of the
  messages of one delivery, those before the failing one have been cached and those after
  it are not looked at; and a tracking loop that is handed the message after a pass ends
  with the exception, its tracker still holding the target it had.
\<close>

theorem targetPoseCallback_lookup_failure:
  assumes "frame_id (header (msg a)) \<noteq> planning_frame s" and "in_planning_frame a = None"
  shows "targetPoseCallback now a s = Inl (TransformException, s) \<and>
         (case targetPoseCallback now a s of
            Inl (x, t) \<Rightarrow>
              target_pose t = target_pose s \<and>
              stamp (header (target_pose t)) = stamp (header (target_pose s))
          | Inr t \<Rightarrow> False) \<and>
         (callbacks now as0 s0 = Inr s \<longrightarrow>
            callbacks now (as0 @ a # as1) s0 = Inl (TransformException, s)) \<and>
         (ros_ok e0 \<longrightarrow> cycle tol atol e0 s0 = Continue s \<longrightarrow> target_msgs e = a # as1 \<longrightarrow>
            track tol atol e0 (e # es) s0 = Uncaught TransformException s)"
proof -
  have cb: "targetPoseCallback now' a s = Inl (TransformException, s)" for now'
    using assms by (simp add: targetPoseCallback_def)
  have "callbacks now (as0 @ a # as1) s0 = Inl (TransformException, s)"
    if "callbacks now as0 s0 = Inr s"
    using that cb by (simp add: callbacks_append)
  moreover have "track tol atol e0 (e # es) s0 = Uncaught TransformException s"
    if "ros_ok e0" and "cycle tol atol e0 s0 = Continue s" and "target_msgs e = a # as1"
    using that cb by (simp add: deliver_def)
  ultimately show ?thesis using cb by simp
qed

text \<open>
  The claim as stated has the callback return with the tracker unchanged. For a message in
  frame \<open>camera\<close> whose lookup fails it does not return: it throws.
\<close>

theorem targetPoseCallback_not_silent:
  "targetPoseCallback 10 camera_arrival demo_tracker = Inl (TransformException, demo_tracker) \<and>
   targetPoseCallback 10 camera_arrival demo_tracker \<noteq> Inr demo_tracker"
  by (simp add: targetPoseCallback_def demo_defs)

text \<open>
  The theorem at that message. Thrown on its own it leaves the new tracker's cache as it
  was; after a message in the planning frame it leaves that message cached; and handed to
  a tracking loop after its first pass it ends the run, the tracker still chasing the
  target it had.
\<close>

theorem targetPoseCallback_lookup_failure_witness:
  "frame_id (header (msg camera_arrival)) \<noteq> planning_frame demo_tracker \<and>
   in_planning_frame camera_arrival = None \<and>
   targetPoseCallback 10 camera_arrival demo_tracker = Inl (TransformException, demo_tracker) \<and>
   (\<exists>t. callbacks 10 [world_arrival, camera_arrival] demo_tracker = Inl (TransformException, t) \<and>
        target_pose t = set_stamp 10 (demo_target ''world'')) \<and>
   (\<exists>t. track demo_tolerance (1 / 100) (tick 10) [camera_arrives 11] (chasing demo_tracker)
          = Uncaught TransformException t \<and>
        target_pose t = demo_target ''world'' \<and> length (commands t) = 1)"
proof -
  have f: "frame_id (header (msg camera_arrival)) \<noteq> planning_frame demo_tracker"
    and l: "in_planning_frame camera_arrival = None"
    by (simp_all add: demo_defs)
  obtain t where t: "callbacks 10 [world_arrival] demo_tracker = Inr t"
    and tp: "target_pose t = set_stamp 10 (demo_target ''world'')"
    and ft: "frame_id (header (msg camera_arrival)) \<noteq> planning_frame t"
    by (simp add: demo_defs targetPoseCallback_def)
  obtain u where u: "cycle demo_tolerance (1 / 100) (tick 10) (chasing demo_tracker) = Continue u"
    and up: "target_pose u = demo_target ''world''" and uc: "length (commands u) = 1"
    and fu: "frame_id (header (msg camera_arrival)) \<noteq> planning_frame u"
    by (simp add: demo_defs run_defs commands_def)
  have ok: "ros_ok (tick 10)" and ms: "target_msgs (camera_arrives 11) = camera_arrival # []"
    by (simp_all add: tick_def camera_arrives_def)
  have "callbacks 10 ([world_arrival] @ camera_arrival # []) demo_tracker = Inl (TransformException, t)"
    using targetPoseCallback_lookup_failure
      [OF ft l, where now = 10 and ?as0.0 = "[world_arrival]" and ?s0.0 = demo_tracker and ?as1.0 = "[]"] t
    by simp
  moreover have "track demo_tolerance (1 / 100) (tick 10) (camera_arrives 11 # []) (chasing demo_tracker)
      = Uncaught TransformException u"
    using targetPoseCallback_lookup_failure
      [OF fu l, where ?e0.0 = "tick 10" and tol = demo_tolerance and atol = "1 / 100"
         and ?s0.0 = "chasing demo_tracker" and e = "camera_arrives 11" and ?as1.0 = "[]" and es = "[]"]
      ok u ms
    by simp
  ultimately show ?thesis
    using targetPoseCallback_lookup_failure [OF f l, where now = 10] f l tp up uc by simp
qed

text \<open>
  C8. For every controller \<open>c\<close>: resetting twice is resetting once; after a reset,
  \<open>computeCommand\<close> returns the same command and leaves the same controller as it does
  on a newly constructed controller with the gains, clamp bounds and anti-windup flag of
  \<open>c\<close>, for every error and period; and a reset changes none of the gains, bounds or flag.
\<close>

theorem pid_reset_like_new:
  "reset (reset c) = reset c \<and>
   computeCommand (reset c) err period =
     computeCommand (Pid (p_gain c) (i_gain c) (d_gain c) (i_max c) (i_min c) (antiwindup c))
       err period \<and>
   p_gain (reset c) = p_gain c \<and> i_gain (reset c) = i_gain c \<and> d_gain (reset c) = d_gain c \<and>
   i_max (reset c) = i_max c \<and> i_min (reset c) = i_min c \<and> antiwindup (reset c) = antiwindup c"
proof -
  have "computeCommand (reset c) err period =
     computeCommand (Pid (p_gain c) (i_gain c) (d_gain c) (i_max c) (i_min c) (antiwindup c))
       err period"
    by (simp only: reset_eq_Pid)
  then show ?thesis by (simp add: reset_def)
qed

text \<open>
  C9 does not hold of the code. In the tracking world the tracker sleeps once, in the
  startup loop, and then publishes two commands with no sleep between or after them: they
  are stamped a millisecond apart, as the events come, while the expected cycle time that
  the controllers are given is ten milliseconds. \<open>track_effects\<close> above says the same of
  every run: the tracking loop adds nothing but published commands.
\<close>

theorem tracking_loop_back_to_back:
  "\<exists>m1 m2.
     effects (tracker_of (moveToPose demo_tolerance (1 / 100) (tick 10) tracking_world demo_tracker))
       = [Slept (1 / 1000), Published m1, Published m2] \<and>
     stamp (twist_header m2) - stamp (twist_header m1) = 1 / 1000 \<and>
     expectedCycleTime (loop_rate demo_tracker) = 1 / 100"
  by (simp add: demo_defs run_defs)

text \<open>
  C10. The cached angular error is zero in a new tracker and after
  \<^verbatim>\<open>doPostMotionReset\<close>, and every return of \<^verbatim>\<open>moveToPose\<close> that was entered with
  it zero leaves it zero. The startup phase does not touch it, so at the first tolerance
  check of such an invocation it is still zero: for every positive angular tolerance the
  check holds exactly when the three positional conditions hold, and when they do the
  invocation returns \<open>SUCCESS\<close> on that first cycle without a command. When they do
  not, and \<^verbatim>\<open>ros::ok()\<close> holds at that cycle, the invocation does not return
  \<open>SUCCESS\<close> there: whatever it returns with \<open>SUCCESS\<close> later has sent a command
  first. So with \<^verbatim>\<open>ros::ok()\<close>, success without a command is decided by the three
  positional conditions alone.
\<close>

theorem first_cycle_angular_condition:
  "angular_error (PoseTracking prm transform0) = 0 \<and>
   angular_error (doPostMotionReset s0) = 0 \<and>
   (angular_error s = 0 \<longrightarrow> moveToPose tol atol e es s = Returned code s' \<longrightarrow> angular_error s' = 0) \<and>
   (angular_error s = 0 \<longrightarrow> 0 < atol \<longrightarrow> startup e es s = Inr (e1, es1, s1) \<longrightarrow>
      angular_error s1 = 0 \<and>
      (satisfiesPoseTolerance tol atol s1 \<longleftrightarrow>
         \<bar>vx (position (pose (target_pose s1))) - vx (translation (end_effector_transform s1))\<bar> < vx tol \<and>
         \<bar>vy (position (pose (target_pose s1))) - vy (translation (end_effector_transform s1))\<bar> < vy tol \<and>
         \<bar>vz (position (pose (target_pose s1))) - vz (translation (end_effector_transform s1))\<bar> < vz tol) \<and>
      (satisfiesPoseTolerance tol atol s1 \<longrightarrow>
         moveToPose tol atol e es s = Returned SUCCESS (doPostMotionReset s1) \<and>
         commands (doPostMotionReset s1) = commands s) \<and>
      (ros_ok e1 \<longrightarrow> \<not> satisfiesPoseTolerance tol atol s1 \<longrightarrow>
         moveToPose tol atol e es s \<noteq> Returned SUCCESS (doPostMotionReset s1) \<and>
         (\<forall>s'. moveToPose tol atol e es s = Returned SUCCESS s' \<longrightarrow> commands s' \<noteq> commands s)) \<and>
      (ros_ok e1 \<longrightarrow>
         ((\<exists>s'. moveToPose tol atol e es s = Returned SUCCESS s' \<and> commands s' = commands s) \<longleftrightarrow>
          \<bar>vx (position (pose (target_pose s1))) - vx (translation (end_effector_transform s1))\<bar> < vx tol \<and>
          \<bar>vy (position (pose (target_pose s1))) - vy (translation (end_effector_transform s1))\<bar> < vy tol \<and>
          \<bar>vz (position (pose (target_pose s1))) - vz (translation (end_effector_transform s1))\<bar> < vz tol)))"
proof -
  have a: "angular_error (PoseTracking prm transform0) = 0"
    by (simp add: PoseTracking_def)
  have b: "angular_error (doPostMotionReset s0) = 0"
    by (rule doPostMotionReset_flags(2))
  have c: "angular_error s' = 0"
    if z: "angular_error s = 0" and r: "moveToPose tol atol e es s = Returned code s'"
  proof (cases "startup e es s")
    case (Inl r')
    with r have "startup e es s = Inl (Returned code s')" by (simp add: moveToPose_def)
    then have "bank_kept s s'" using startup_Returned by blast
    then show ?thesis using z by (simp add: bank_kept_def)
  next
    case (Inr p)
    obtain e2 es2 s2 where p: "p = (e2, es2, s2)" by (cases p) auto
    from Inr p r have "track tol atol e2 es2 s2 = Returned code s'" by (simp add: moveToPose_def)
    from track_Returned [OF this] show ?thesis by (auto simp: doPostMotionReset_flags(2))
  qed
  have d: "angular_error s1 = 0 \<and>
      (satisfiesPoseTolerance tol atol s1 \<longleftrightarrow>
         \<bar>vx (position (pose (target_pose s1))) - vx (translation (end_effector_transform s1))\<bar> < vx tol \<and>
         \<bar>vy (position (pose (target_pose s1))) - vy (translation (end_effector_transform s1))\<bar> < vy tol \<and>
         \<bar>vz (position (pose (target_pose s1))) - vz (translation (end_effector_transform s1))\<bar> < vz tol) \<and>
      (satisfiesPoseTolerance tol atol s1 \<longrightarrow>
         moveToPose tol atol e es s = Returned SUCCESS (doPostMotionReset s1) \<and>
         commands (doPostMotionReset s1) = commands s) \<and>
      (ros_ok e1 \<longrightarrow> \<not> satisfiesPoseTolerance tol atol s1 \<longrightarrow>
         moveToPose tol atol e es s \<noteq> Returned SUCCESS (doPostMotionReset s1) \<and>
         (\<forall>s'. moveToPose tol atol e es s = Returned SUCCESS s' \<longrightarrow> commands s' \<noteq> commands s)) \<and>
      (ros_ok e1 \<longrightarrow>
         ((\<exists>s'. moveToPose tol atol e es s = Returned SUCCESS s' \<and> commands s' = commands s) \<longleftrightarrow>
          \<bar>vx (position (pose (target_pose s1))) - vx (translation (end_effector_transform s1))\<bar> < vx tol \<and>
          \<bar>vy (position (pose (target_pose s1))) - vy (translation (end_effector_transform s1))\<bar> < vy tol \<and>
          \<bar>vz (position (pose (target_pose s1))) - vz (translation (end_effector_transform s1))\<bar> < vz tol))"
    if z: "angular_error s = 0" and pos: "0 < atol" and st: "startup e es s = Inr (e1, es1, s1)"
  proof -
    have k: "bank_kept s s1" using st by (rule startup_Inr)
    then have z1: "angular_error s1 = 0" using z by (simp add: bank_kept_def)
    have m: "moveToPose tol atol e es s = track tol atol e1 es1 s1"
      using st by (simp add: moveToPose_def)
    have t: "track tol atol e1 es1 s1 = Returned SUCCESS (doPostMotionReset s1)"
      if "satisfiesPoseTolerance tol atol s1"
      using that by (cases es1) (simp_all add: cycle_def)
    have cs: "commands (doPostMotionReset s1) = commands s"
      using k by (simp add: commands_def doPostMotionReset_flags(3) bank_kept_def)
    have late: "commands s' \<noteq> commands s"
      if "ros_ok e1" and "\<not> satisfiesPoseTolerance tol atol s1"
        and "moveToPose tol atol e es s = Returned SUCCESS s'" for s'
    proof -
      have "track tol atol e1 es1 s1 = Returned SUCCESS s'" using that(3) m by simp
      from track_miss [OF that(1,2) this] obtain c cs' where "commands s' = commands s1 @ c # cs'"
        by blast
      moreover have "commands s1 = commands s" using k by (simp add: bank_kept_def)
      ultimately show ?thesis by simp
    qed
    have sat: "satisfiesPoseTolerance tol atol s1 \<longleftrightarrow>
         \<bar>vx (position (pose (target_pose s1))) - vx (translation (end_effector_transform s1))\<bar> < vx tol \<and>
         \<bar>vy (position (pose (target_pose s1))) - vy (translation (end_effector_transform s1))\<bar> < vy tol \<and>
         \<bar>vz (position (pose (target_pose s1))) - vz (translation (end_effector_transform s1))\<bar> < vz tol"
      using z1 pos by (simp add: satisfiesPoseTolerance_def)
    have first: "(\<exists>s'. moveToPose tol atol e es s = Returned SUCCESS s' \<and> commands s' = commands s)
        \<longleftrightarrow> satisfiesPoseTolerance tol atol s1" if "ros_ok e1"
      using that late t m cs by auto
    have never: "moveToPose tol atol e es s \<noteq> Returned SUCCESS (doPostMotionReset s1) \<and>
         (\<forall>s'. moveToPose tol atol e es s = Returned SUCCESS s' \<longrightarrow> commands s' \<noteq> commands s)"
      if "ros_ok e1" and "\<not> satisfiesPoseTolerance tol atol s1"
      using that late cs by blast
    have hit: "moveToPose tol atol e es s = Returned SUCCESS (doPostMotionReset s1) \<and>
         commands (doPostMotionReset s1) = commands s" if "satisfiesPoseTolerance tol atol s1"
      using that t m cs by simp
    show ?thesis
      unfolding sat [symmetric] using z1 hit never first by blast
  qed
  show ?thesis using a b c d by blast
qed

text \<open>
  The theorem on a new tracker whose target arrives where the end effector already is.
\<close>

theorem first_cycle_angular_condition_witness:
  "angular_error demo_tracker = 0 \<and> (0::real) < 1 / 100 \<and>
   (\<exists>e1 es1 s1. startup (tick 10) home_world demo_tracker = Inr (e1, es1, s1) \<and>
      satisfiesPoseTolerance demo_tolerance (1 / 100) s1) \<and>
   status_of (moveToPose demo_tolerance (1 / 100) (tick 10) home_world demo_tracker) = Some SUCCESS \<and>
   angular_error (tracker_of (moveToPose demo_tolerance (1 / 100) (tick 10) home_world demo_tracker)) = 0 \<and>
   commands (tracker_of (moveToPose demo_tolerance (1 / 100) (tick 10) home_world demo_tracker)) = [] \<and>
   (\<exists>e1 es1 s1. startup (tick 10) tracking_world demo_tracker = Inr (e1, es1, s1) \<and>
      ros_ok e1 \<and> \<not> satisfiesPoseTolerance demo_tolerance (1 / 100) s1) \<and>
   status_of (moveToPose demo_tolerance (1 / 100) (tick 10) tracking_world demo_tracker)
     = Some STOP_REQUESTED \<and>
   (\<nexists>s'. moveToPose demo_tolerance (1 / 100) (tick 10) tracking_world demo_tracker
            = Returned SUCCESS s' \<and> commands s' = commands demo_tracker)"
proof -
  have z: "angular_error demo_tracker = 0" by (simp add: demo_defs)
  obtain f1 fs1 u1 where st2: "startup (tick 10) tracking_world demo_tracker = Inr (f1, fs1, u1)"
    and ok2: "ros_ok f1" and miss2: "\<not> satisfiesPoseTolerance demo_tolerance (1 / 100) u1"
    by (simp add: demo_defs run_defs)
  have stop2: "status_of (moveToPose demo_tolerance (1 / 100) (tick 10) tracking_world demo_tracker)
     = Some STOP_REQUESTED"
    by (simp add: demo_defs run_defs)
  have far: "\<nexists>s'. moveToPose demo_tolerance (1 / 100) (tick 10) tracking_world demo_tracker
            = Returned SUCCESS s' \<and> commands s' = commands demo_tracker"
    using first_cycle_angular_condition
      [where s = demo_tracker and tol = demo_tolerance and atol = "1 / 100" and e = "tick 10"
         and es = tracking_world and ?e1.0 = f1 and ?es1.0 = fs1 and ?s1.0 = u1]
      z st2 ok2 miss2
    by simp
  have c0: "commands demo_tracker = []" by (simp add: demo_defs commands_def)
  have pos: "(0::real) < 1 / 100" by simp
  obtain e1 es1 s1 where st: "startup (tick 10) home_world demo_tracker = Inr (e1, es1, s1)"
    and sat: "satisfiesPoseTolerance demo_tolerance (1 / 100) s1"
    by (simp add: demo_defs run_defs)
  from first_cycle_angular_condition
    [of demo_params demo_transform demo_tracker demo_tracker demo_tolerance "1 / 100" "tick 10"
        home_world SUCCESS "doPostMotionReset s1" e1 es1 s1]
  have "moveToPose demo_tolerance (1 / 100) (tick 10) home_world demo_tracker
          = Returned SUCCESS (doPostMotionReset s1)"
    and "commands (doPostMotionReset s1) = commands demo_tracker"
    and "angular_error (doPostMotionReset s1) = 0"
    using z pos st sat by simp_all
  then show ?thesis using z pos st sat c0 st2 ok2 miss2 stop2 far by simp
qed

end
